theory Spec2Isabelle
  imports Complex_Main "HOL-Library.Multiset" "HOL-Library.Sublist"
begin

section \<open>The data pipeline of \<^verbatim>\<open>pen_data.py\<close>\<close>

text \<open>
  The script loads a JSON array of records, reshapes it into a long-format table
  (one row per record and antibiotic), and computes group means, a ratio, per-antibiotic
  extrema and a filtered view from that table. The page layout and the charts are left
  out; the functions below are the statements of the script that compute data.

  Conventions of the model.
  \<^item> A raw record is a Python \<^verbatim>\<open>dict\<close> read from JSON: a partial map from field
    names to JSON values. The cells modelled are integers (a Python \<^verbatim>\<open>int\<close>, of any
    size), floats, strings and \<^verbatim>\<open>null\<close>; booleans and nested arrays or objects as cell
    values are outside the model, and so is the reading of the file itself (the parsed
    array is the input).
  \<^item> A float is a real number, meant to be a finite double; a float result of numpy is a
    value of \<open>npfloat\<close>: a finite number, an infinity or NaN. The sums and quotients of
    \<^verbatim>\<open>mean\<close> and of the ratio are rounded to the nearest double (\<open>float64\<close> below),
    so they depend on the order of the operations as in the script. Signed zeros are not
    distinguished, and the logarithm is taken exact (numpy returns a double next to it).
  \<^item> A MIC cell of a table is kept as the number it is. pandas stores a column that mixes
    integers and floats as doubles, and numpy takes the logarithm of an integer through
    its double, so this is what the script holds when every integer MIC value has a
    magnitude of at most \<open>2^53\<close>; the statements about loaded tables assume that bound
    (\<open>is_number\<close> below).
  \<^item> An exception is a value \<open>Inl e\<close>; the first one raised ends the computation.
  \<^item> A \<^verbatim>\<open>DataFrame\<close> is its list of column names and its rows, each row paired
    with its index label. The operations of pandas and numpy that the script calls
    (\<^verbatim>\<open>DataFrame\<close>, column lookup, boolean-mask selection, \<^verbatim>\<open>mean\<close>,
    \<^verbatim>\<open>idxmin\<close>, \<^verbatim>\<open>idxmax\<close>, \<^verbatim>\<open>loc\<close>, \<^verbatim>\<open>log10\<close>, division) are
    modelled by their documented behaviour.
\<close>

subsection \<open>Values, errors, rows and frames\<close>

datatype jvalue = JInt int | JFloat real | JStr string | JNull

datatype npfloat = Fin real | PInf | NInf | NaN

datatype error =
    KeyError string \<comment> \<open>a missing dict key or a missing column\<close>
  | KeyErrorLabel nat \<comment> \<open>a missing index label\<close>
  | TypeError
  | ValueError

type_synonym raw_record = "string \<rightharpoonup> jvalue"

text \<open>The dict appended at lines 30-37, in the order of its keys.\<close>

record row =
  bacteria :: jvalue
  antibiotic :: string
  mic :: real
  gram_staining :: jvalue
  genus :: jvalue
  log_mic :: npfloat

record frame =
  columns :: "string list"
  rows :: "(nat \<times> row) list"

subsection \<open>numpy and pandas primitives\<close>

text \<open>\<^verbatim>\<open>np.log10\<close> on a number: \<open>-inf\<close> at zero and NaN below it (numpy warns and
  returns). Its argument is converted first, which \<open>as_number\<close> models: a float is
  taken as it is; a Python \<^verbatim>\<open>int\<close> is taken when it fits a 64-bit integer, signed or
  unsigned, and raises \<^verbatim>\<open>TypeError\<close> otherwise; a string or \<^verbatim>\<open>None\<close> raises
  \<^verbatim>\<open>TypeError\<close>.\<close>

definition np_log10 :: "real \<Rightarrow> npfloat" where
  "np_log10 x = (if 0 < x then Fin (log 10 x) else if x = 0 then NInf else NaN)"

fun as_number :: "jvalue \<Rightarrow> error + real" where
  "as_number (JInt n) =
     (if - (2 ^ 63) \<le> n \<and> n < 2 ^ 64 then Inr (of_int n) else Inl TypeError)"
| "as_number (JFloat x) = Inr x"
| "as_number (JStr s) = Inl TypeError"
| "as_number JNull = Inl TypeError"

text \<open>Rounding a real to the nearest double, ties to the even significand: 53 bits of
  significand, the least quantum \<open>2^-1074\<close>, and an infinity from \<open>2^1024\<close> on.\<close>

definition pow2 :: "int \<Rightarrow> real" where
  "pow2 i = (if 0 \<le> i then 2 ^ nat i else 1 / 2 ^ nat (- i))"

definition round_even :: "real \<Rightarrow> int" where
  "round_even x =
     (let f = \<lfloor>x\<rfloor>; d = x - of_int f
      in if d < 1 / 2 then f else if 1 / 2 < d then f + 1 else if even f then f else f + 1)"

definition float64 :: "real \<Rightarrow> npfloat" where
  "float64 x =
     (if x = 0 then Fin 0
      else let e = \<lfloor>log 2 \<bar>x\<bar>\<rfloor>;
               q = pow2 (max (e - 52) (- 1074));
               r = of_int (round_even (x / q)) * q
           in if pow2 1024 \<le> r then PInf else if r \<le> - pow2 1024 then NInf else Fin r)"

text \<open>Addition and division of two numpy floats: NaN propagates, the result of two
  finite numbers is rounded, and a zero divisor gives NaN or an infinity instead of
  raising.\<close>

fun np_add :: "npfloat \<Rightarrow> npfloat \<Rightarrow> npfloat" where
  "np_add NaN y = NaN"
| "np_add x NaN = NaN"
| "np_add (Fin a) (Fin b) = float64 (a + b)"
| "np_add (Fin a) PInf = PInf"
| "np_add (Fin a) NInf = NInf"
| "np_add PInf (Fin b) = PInf"
| "np_add NInf (Fin b) = NInf"
| "np_add PInf PInf = PInf"
| "np_add PInf NInf = NaN"
| "np_add NInf PInf = NaN"
| "np_add NInf NInf = NInf"

fun np_div :: "npfloat \<Rightarrow> npfloat \<Rightarrow> npfloat" where
  "np_div NaN y = NaN"
| "np_div x NaN = NaN"
| "np_div (Fin a) (Fin b) =
     (if b = 0 then (if a = 0 then NaN else if 0 < a then PInf else NInf)
      else float64 (a / b))"
| "np_div (Fin a) PInf = Fin 0"
| "np_div (Fin a) NInf = Fin 0"
| "np_div PInf (Fin b) = (if b < 0 then NInf else PInf)"
| "np_div NInf (Fin b) = (if b < 0 then PInf else NInf)"
| "np_div PInf PInf = NaN"
| "np_div PInf NInf = NaN"
| "np_div NInf PInf = NaN"
| "np_div NInf NInf = NaN"

text \<open>\<^verbatim>\<open>Series.mean()\<close>: NaN for an empty series; otherwise the float sum of the
  values divided by their number. The values are added one after the other in the order
  of the series, which is the order of numpy for a series of fewer than eight values (a
  longer series is added in blocks, with the same terms and possibly another rounding).\<close>

fun fsum :: "npfloat \<Rightarrow> real list \<Rightarrow> npfloat" where
  "fsum acc [] = acc"
| "fsum acc (x # xs) = fsum (np_add acc (Fin x)) xs"

definition mean :: "real list \<Rightarrow> npfloat" where
  "mean xs =
     (case xs of [] \<Rightarrow> NaN
      | x # rest \<Rightarrow> np_div (fsum (Fin x) rest) (Fin (real (length xs))))"

text \<open>The column names of the rows built at lines 30-37.\<close>

definition row_columns :: "string list" where
  "row_columns =
     [''bacteria'', ''antibiotic'', ''mic'', ''gram_staining'', ''genus'', ''log_mic'']"

text \<open>\<^verbatim>\<open>pd.DataFrame(list_of_dicts)\<close>: the rows get the labels \<open>0, 1, ...\<close>; the
  columns are the keys of the dicts, so a frame built from the empty list has no columns.
  The cells are kept as they are, which is what pandas stores when the integer MIC values
  have a magnitude of at most \<open>2^53\<close> (beyond it, a column that also holds floats is
  stored rounded to doubles).\<close>

definition DataFrame :: "row list \<Rightarrow> frame" where
  "DataFrame data =
     \<lparr>columns = (if data = [] then [] else row_columns), rows = enumerate 0 data\<rparr>"

text \<open>\<^verbatim>\<open>df[mask]\<close> for a mask computed row by row: the rows where it holds, with
  their labels, in order; the columns stay.\<close>

definition mask_select :: "frame \<Rightarrow> (row \<Rightarrow> bool) \<Rightarrow> frame" where
  "mask_select df p = df\<lparr>rows := filter (\<lambda>(i, r). p r) (rows df)\<rparr>"

text \<open>\<^verbatim>\<open>df['mic']\<close>: the labelled series of the column, \<^verbatim>\<open>KeyError\<close> when the
  frame has no such column.\<close>

definition mic_series :: "frame \<Rightarrow> error + (nat \<times> real) list" where
  "mic_series df =
     (if ''mic'' \<in> set (columns df) then Inr (map (\<lambda>(i, r). (i, mic r)) (rows df))
      else Inl (KeyError ''mic''))"

definition mic_mean :: "frame \<Rightarrow> error + npfloat" where
  "mic_mean df =
     (case mic_series df of Inl e \<Rightarrow> Inl e | Inr s \<Rightarrow> Inr (mean (map snd s)))"

text \<open>\<^verbatim>\<open>Series.idxmin()\<close> and \<^verbatim>\<open>idxmax()\<close>: the label of the first occurrence of
  the least (greatest) value; \<^verbatim>\<open>ValueError\<close> on an empty series. The scan keeps the
  current candidate unless a strictly better value comes.\<close>

fun idxmin_from :: "nat \<times> real \<Rightarrow> (nat \<times> real) list \<Rightarrow> nat" where
  "idxmin_from (i, v) [] = i"
| "idxmin_from (i, v) ((j, w) # s) =
     (if w < v then idxmin_from (j, w) s else idxmin_from (i, v) s)"

fun idxmin :: "(nat \<times> real) list \<Rightarrow> error + nat" where
  "idxmin [] = Inl ValueError"
| "idxmin (x # s) = Inr (idxmin_from x s)"

fun idxmax_from :: "nat \<times> real \<Rightarrow> (nat \<times> real) list \<Rightarrow> nat" where
  "idxmax_from (i, v) [] = i"
| "idxmax_from (i, v) ((j, w) # s) =
     (if v < w then idxmax_from (j, w) s else idxmax_from (i, v) s)"

fun idxmax :: "(nat \<times> real) list \<Rightarrow> error + nat" where
  "idxmax [] = Inl ValueError"
| "idxmax (x # s) = Inr (idxmax_from x s)"

text \<open>\<^verbatim>\<open>df.loc[label]\<close>: the row with that label.\<close>

definition loc :: "frame \<Rightarrow> nat \<Rightarrow> error + row" where
  "loc df l = (case map_of (rows df) l of None \<Rightarrow> Inl (KeyErrorLabel l) | Some r \<Rightarrow> Inr r)"

subsection \<open>Loading and reshaping (lines 19-39)\<close>

definition antibiotics :: "string list" where
  "antibiotics = [''Penicillin'', ''Streptomycin'', ''Neomycin'']"

text \<open>\<^verbatim>\<open>record[k]\<close>.\<close>

definition getitem :: "raw_record \<Rightarrow> string \<Rightarrow> error + jvalue" where
  "getitem rcd k = (case rcd k of None \<Rightarrow> Inl (KeyError k) | Some v \<Rightarrow> Inr v)"

text \<open>The dict literal of lines 30-37; its values are evaluated in the order written, so
  the lookups of the four fields come before the logarithm.\<close>

definition make_row :: "raw_record \<Rightarrow> string \<Rightarrow> error + row" where
  "make_row rcd a =
     (case getitem rcd ''Bacteria'' of Inl e \<Rightarrow> Inl e | Inr b \<Rightarrow>
      (case getitem rcd a of Inl e \<Rightarrow> Inl e | Inr m \<Rightarrow>
      (case getitem rcd ''Gram_Staining'' of Inl e \<Rightarrow> Inl e | Inr g \<Rightarrow>
      (case getitem rcd ''Genus'' of Inl e \<Rightarrow> Inl e | Inr ge \<Rightarrow>
      (case as_number m of Inl e \<Rightarrow> Inl e | Inr x \<Rightarrow>
        Inr \<lparr>bacteria = b, antibiotic = a, mic = x, gram_staining = g, genus = ge,
             log_mic = np_log10 x\<rparr>)))))"

text \<open>The inner loop over the antibiotics and the outer loop over the records, both
  appending to \<^verbatim>\<open>transformed_data\<close>.\<close>

fun inner_loop :: "raw_record \<Rightarrow> string list \<Rightarrow> row list \<Rightarrow> error + row list" where
  "inner_loop rcd [] transformed_data = Inr transformed_data"
| "inner_loop rcd (a # as) transformed_data =
     (case make_row rcd a of Inl e \<Rightarrow> Inl e
      | Inr r \<Rightarrow> inner_loop rcd as (transformed_data @ [r]))"

fun outer_loop :: "raw_record list \<Rightarrow> row list \<Rightarrow> error + row list" where
  "outer_loop [] transformed_data = Inr transformed_data"
| "outer_loop (rcd # raw_data) transformed_data =
     (case inner_loop rcd antibiotics transformed_data of Inl e \<Rightarrow> Inl e
      | Inr t \<Rightarrow> outer_loop raw_data t)"

definition load_and_transform_data :: "raw_record list \<Rightarrow> error + frame" where
  "load_and_transform_data raw_data =
     (case outer_loop raw_data [] of Inl e \<Rightarrow> Inl e | Inr t \<Rightarrow> Inr (DataFrame t))"

subsection \<open>Key statistics (lines 44-46)\<close>

text \<open>\<^verbatim>\<open>df[(df['gram_staining'] == g) & (df['antibiotic'] == a)]['mic'].mean()\<close>: the
  two columns are looked up left to right, then the mask selects.\<close>

definition group_mean :: "frame \<Rightarrow> string \<Rightarrow> string \<Rightarrow> error + npfloat" where
  "group_mean df g a =
     (if ''gram_staining'' \<in> set (columns df) then
        if ''antibiotic'' \<in> set (columns df) then
          mic_mean (mask_select df (\<lambda>r. gram_staining r = JStr g \<and> antibiotic r = a))
        else Inl (KeyError ''antibiotic'')
      else Inl (KeyError ''gram_staining''))"

definition gram_pos_pen :: "frame \<Rightarrow> error + npfloat" where
  "gram_pos_pen df = group_mean df ''positive'' ''Penicillin''"

definition gram_neg_pen :: "frame \<Rightarrow> error + npfloat" where
  "gram_neg_pen df = group_mean df ''negative'' ''Penicillin''"

definition effectiveness_ratio :: "frame \<Rightarrow> error + npfloat" where
  "effectiveness_ratio df =
     (case gram_pos_pen df of Inl e \<Rightarrow> Inl e | Inr p \<Rightarrow>
      (case gram_neg_pen df of Inl e \<Rightarrow> Inl e | Inr n \<Rightarrow> Inr (np_div n p)))"

subsection \<open>Summary statistics (lines 209-221)\<close>

text \<open>\<^verbatim>\<open>df[df['antibiotic'] == antibiotic]\<close>.\<close>

definition antibiotic_data :: "frame \<Rightarrow> string \<Rightarrow> error + frame" where
  "antibiotic_data df a =
     (if ''antibiotic'' \<in> set (columns df) then Inr (mask_select df (\<lambda>r. antibiotic r = a))
      else Inl (KeyError ''antibiotic''))"

text \<open>\<^verbatim>\<open>antibiotic_data[antibiotic_data['gram_staining'] == g]['mic'].mean()\<close>.\<close>

definition gram_avg :: "frame \<Rightarrow> string \<Rightarrow> error + npfloat" where
  "gram_avg ad g =
     (if ''gram_staining'' \<in> set (columns ad) then
        mic_mean (mask_select ad (\<lambda>r. gram_staining r = JStr g))
      else Inl (KeyError ''gram_staining''))"

text \<open>One pass of the loop: the antibiotic, \<^verbatim>\<open>pos_avg\<close>, \<^verbatim>\<open>neg_avg\<close> and
  \<^verbatim>\<open>ratio\<close>, as numbers (the script then formats them as text).\<close>

definition summary_row :: "frame \<Rightarrow> string \<Rightarrow> error + (string \<times> npfloat \<times> npfloat \<times> npfloat)" where
  "summary_row df a =
     (case antibiotic_data df a of Inl e \<Rightarrow> Inl e | Inr ad \<Rightarrow>
      (case gram_avg ad ''positive'' of Inl e \<Rightarrow> Inl e | Inr pos_avg \<Rightarrow>
      (case gram_avg ad ''negative'' of Inl e \<Rightarrow> Inl e | Inr neg_avg \<Rightarrow>
        Inr (a, pos_avg, neg_avg, np_div neg_avg pos_avg))))"

text \<open>A \<^verbatim>\<open>for\<close> loop that appends one entry per antibiotic and stops at the first
  exception.\<close>

fun for_each :: "(string \<Rightarrow> error + 'a) \<Rightarrow> string list \<Rightarrow> 'a list \<Rightarrow> error + 'a list" where
  "for_each body [] acc = Inr acc"
| "for_each body (a # as) acc =
     (case body a of Inl e \<Rightarrow> Inl e | Inr x \<Rightarrow> for_each body as (acc @ [x]))"

definition summary_stats :: "frame \<Rightarrow> error + (string \<times> npfloat \<times> npfloat \<times> npfloat) list" where
  "summary_stats df = for_each (summary_row df) antibiotics []"

definition summary_ratio :: "frame \<Rightarrow> string \<Rightarrow> error + npfloat" where
  "summary_ratio df a =
     (case summary_row df a of Inl e \<Rightarrow> Inl e | Inr (n, pos_avg, neg_avg, ratio) \<Rightarrow> Inr ratio)"

subsection \<open>Most and least effective (lines 270-296)\<close>

text \<open>\<^verbatim>\<open>df[df['antibiotic'] == a].loc[df[df['antibiotic'] == a]['mic'].idxmin()]\<close>: the
  frame is selected, then the index expression is evaluated (a second selection, the
  column, \<^verbatim>\<open>idxmin\<close>), then \<^verbatim>\<open>loc\<close> looks the label up in the first selection.\<close>

definition best :: "frame \<Rightarrow> string \<Rightarrow> error + row" where
  "best df a =
     (case antibiotic_data df a of Inl e \<Rightarrow> Inl e | Inr sel \<Rightarrow>
      (case antibiotic_data df a of Inl e \<Rightarrow> Inl e | Inr sel2 \<Rightarrow>
      (case mic_series sel2 of Inl e \<Rightarrow> Inl e | Inr s \<Rightarrow>
      (case idxmin s of Inl e \<Rightarrow> Inl e | Inr l \<Rightarrow> loc sel l))))"

definition worst :: "frame \<Rightarrow> string \<Rightarrow> error + row" where
  "worst df a =
     (case antibiotic_data df a of Inl e \<Rightarrow> Inl e | Inr sel \<Rightarrow>
      (case antibiotic_data df a of Inl e \<Rightarrow> Inl e | Inr sel2 \<Rightarrow>
      (case mic_series sel2 of Inl e \<Rightarrow> Inl e | Inr s \<Rightarrow>
      (case idxmax s of Inl e \<Rightarrow> Inl e | Inr l \<Rightarrow> loc sel l))))"

text \<open>The entry appended for one antibiotic: antibiotic, bacteria, MIC, gram staining.\<close>

definition effective_entry :: "string \<Rightarrow> row \<Rightarrow> string \<times> jvalue \<times> real \<times> jvalue" where
  "effective_entry a r = (a, bacteria r, mic r, gram_staining r)"

definition most_effective :: "frame \<Rightarrow> error + (string \<times> jvalue \<times> real \<times> jvalue) list" where
  "most_effective df =
     for_each (\<lambda>a. case best df a of Inl e \<Rightarrow> Inl e | Inr r \<Rightarrow> Inr (effective_entry a r))
       antibiotics []"

definition least_effective :: "frame \<Rightarrow> error + (string \<times> jvalue \<times> real \<times> jvalue) list" where
  "least_effective df =
     for_each (\<lambda>a. case worst df a of Inl e \<Rightarrow> Inl e | Inr r \<Rightarrow> Inr (effective_entry a r))
       antibiotics []"

subsection \<open>The filtered view (lines 312-316)\<close>

text \<open>The two selections are strings of the select boxes; \<^verbatim>\<open>'All'\<close> skips the
  filter of its dimension.\<close>

definition filtered_df :: "frame \<Rightarrow> string \<Rightarrow> string \<Rightarrow> error + frame" where
  "filtered_df df selected_gram selected_antibiotic =
     (case (if selected_gram \<noteq> ''All'' then
              (if ''gram_staining'' \<in> set (columns df) then
                 Inr (mask_select df (\<lambda>r. gram_staining r = JStr selected_gram))
               else Inl (KeyError ''gram_staining''))
            else Inr df) of
        Inl e \<Rightarrow> Inl e
      | Inr f \<Rightarrow>
          if selected_antibiotic \<noteq> ''All'' then
            (if ''antibiotic'' \<in> set (columns f) then
               Inr (mask_select f (\<lambda>r. antibiotic r = selected_antibiotic))
             else Inl (KeyError ''antibiotic''))
          else Inr f)"

subsection \<open>Predicates and reference rows used in the statements\<close>

text \<open>A MIC cell is a number that numpy and pandas take without an error and without
  rounding: a float, or an integer of magnitude at most \<open>2^53\<close>. A record is complete
  when it has the three descriptive fields and such a number for each antibiotic; it is
  valid when moreover every MIC value is strictly positive and the gram staining is one
  of the two recognised strings.\<close>

fun is_number :: "jvalue option \<Rightarrow> bool" where
  "is_number (Some (JInt n)) = (- (2 ^ 53) \<le> n \<and> n \<le> 2 ^ 53)"
| "is_number (Some (JFloat x)) = True"
| "is_number v = False"

fun is_positive :: "jvalue option \<Rightarrow> bool" where
  "is_positive (Some (JInt n)) = (0 < n)"
| "is_positive (Some (JFloat x)) = (0 < x)"
| "is_positive v = False"

definition complete_record :: "raw_record \<Rightarrow> bool" where
  "complete_record rcd =
     (rcd ''Bacteria'' \<noteq> None \<and> rcd ''Gram_Staining'' \<noteq> None \<and> rcd ''Genus'' \<noteq> None \<and>
      list_all (\<lambda>a. is_number (rcd a)) antibiotics)"

definition valid_record :: "raw_record \<Rightarrow> bool" where
  "valid_record rcd =
     (complete_record rcd \<and> list_all (\<lambda>a. is_positive (rcd a)) antibiotics \<and>
      (rcd ''Gram_Staining'' = Some (JStr ''positive'') \<or>
       rcd ''Gram_Staining'' = Some (JStr ''negative'')))"

text \<open>The number in a numeric cell, and the row a complete record gives for an
  antibiotic, written without the error handling; the lemmas below show that
  \<open>make_row\<close> returns it.\<close>

fun num_of :: "jvalue option \<Rightarrow> real" where
  "num_of (Some (JInt n)) = of_int n"
| "num_of (Some (JFloat x)) = x"
| "num_of v = 0"

definition row_of :: "raw_record \<Rightarrow> string \<Rightarrow> row" where
  "row_of rcd a =
     \<lparr>bacteria = the (rcd ''Bacteria''), antibiotic = a, mic = num_of (rcd a),
      gram_staining = the (rcd ''Gram_Staining''), genus = the (rcd ''Genus''),
      log_mic = np_log10 (num_of (rcd a))\<rparr>"

definition long_format :: "raw_record list \<Rightarrow> row list" where
  "long_format raw_data = concat (map (\<lambda>rcd. map (row_of rcd) antibiotics) raw_data)"

subsection \<open>Example records\<close>

text \<open>Two valid records, and one whose Penicillin value is zero and whose gram staining
  is neither of the two recognised strings.\<close>

definition strep :: raw_record where
  "strep = map_of [(''Bacteria'', JStr ''S. pyogenes''), (''Penicillin'', JInt 1),
     (''Streptomycin'', JInt 10), (''Neomycin'', JInt 10),
     (''Gram_Staining'', JStr ''positive''), (''Genus'', JStr ''Streptococcus'')]"

definition ecoli :: raw_record where
  "ecoli = map_of [(''Bacteria'', JStr ''E. coli''), (''Penicillin'', JInt 100),
     (''Streptomycin'', JInt 1), (''Neomycin'', JInt 1),
     (''Gram_Staining'', JStr ''negative''), (''Genus'', JStr ''other'')]"

definition zero_pen :: raw_record where
  "zero_pen = map_of [(''Bacteria'', JStr ''X''), (''Penicillin'', JInt 0),
     (''Streptomycin'', JInt 1), (''Neomycin'', JInt 10),
     (''Gram_Staining'', JStr ''variable''), (''Genus'', JStr ''other'')]"

text \<open>A record whose Penicillin value is the integer \<open>2^64\<close>.\<close>

definition big_pen :: raw_record where
  "big_pen = map_of [(''Bacteria'', JStr ''Y''), (''Penicillin'', JInt 18446744073709551616),
     (''Streptomycin'', JInt 1), (''Neomycin'', JInt 1),
     (''Gram_Staining'', JStr ''positive''), (''Genus'', JStr ''other'')]"

text \<open>The table that the load returns for \<open>[strep]\<close>.\<close>

definition strep_frame :: frame where
  "strep_frame =
     \<lparr>columns = [''bacteria'', ''antibiotic'', ''mic'', ''gram_staining'', ''genus'', ''log_mic''],
      rows = [(0, \<lparr>bacteria = JStr ''S. pyogenes'', antibiotic = ''Penicillin'', mic = 1,
                   gram_staining = JStr ''positive'', genus = JStr ''Streptococcus'', log_mic = Fin 0\<rparr>),
              (1, \<lparr>bacteria = JStr ''S. pyogenes'', antibiotic = ''Streptomycin'', mic = 10,
                   gram_staining = JStr ''positive'', genus = JStr ''Streptococcus'', log_mic = Fin 1\<rparr>),
              (2, \<lparr>bacteria = JStr ''S. pyogenes'', antibiotic = ''Neomycin'', mic = 10,
                   gram_staining = JStr ''positive'', genus = JStr ''Streptococcus'', log_mic = Fin 1\<rparr>)]\<rparr>"

text \<open>Five Penicillin rows: \<open>A\<close> and \<open>D\<close> tie for the least MIC, \<open>B\<close> and \<open>E\<close> for the
  greatest.\<close>

definition pen_row :: "string \<Rightarrow> string \<Rightarrow> real \<Rightarrow> row" where
  "pen_row b g x =
     \<lparr>bacteria = JStr b, antibiotic = ''Penicillin'', mic = x, gram_staining = JStr g,
      genus = JStr ''other'', log_mic = np_log10 x\<rparr>"

definition sample_rows :: "row list" where
  "sample_rows = [pen_row ''A'' ''positive'' 1, pen_row ''B'' ''negative'' 300,
     pen_row ''C'' ''negative'' 100, pen_row ''D'' ''positive'' 1, pen_row ''E'' ''negative'' 300]"




section \<open>The loader on complete records\<close>

text \<open>On a list of complete records neither loop raises, and the table is the list of
  reference rows, three per record.\<close>

lemma as_number_num_of: "is_number v \<Longrightarrow> as_number (the v) = Inr (num_of v)"
  by (cases v rule: is_number.cases) simp_all

text \<open>An integer that fits no 64-bit integer ends the load with \<^verbatim>\<open>TypeError\<close>.\<close>

lemma load_big_int_raises: "load_and_transform_data [strep, big_pen] = Inl TypeError"
  by (simp add: load_and_transform_data_def antibiotics_def make_row_def getitem_def
      strep_def big_pen_def)

lemma make_row_complete:
  assumes "complete_record rcd" "a \<in> set antibiotics"
  shows "make_row rcd a = Inr (row_of rcd a)"
proof -
  from assms have n: "is_number (rcd a)"
    by (simp add: complete_record_def list_all_iff)
  then obtain m where m: "rcd a = Some m"
    by (cases "rcd a") simp_all
  with as_number_num_of [OF n] have x: "as_number m = Inr (num_of (rcd a))"
    by simp
  from assms obtain b g ge where f: "rcd ''Bacteria'' = Some b"
      "rcd ''Gram_Staining'' = Some g" "rcd ''Genus'' = Some ge"
    by (auto simp: complete_record_def)
  show ?thesis
    by (simp add: make_row_def getitem_def row_of_def m x f)
qed

lemma inner_loop_rows:
  "(\<And>a. a \<in> set as \<Longrightarrow> make_row rcd a = Inr (f a)) \<Longrightarrow>
   inner_loop rcd as acc = Inr (acc @ map f as)"
  by (induction as arbitrary: acc) simp_all

lemma outer_loop_complete:
  "list_all complete_record raw_data \<Longrightarrow>
   outer_loop raw_data acc = Inr (acc @ long_format raw_data)"
proof (induction raw_data arbitrary: acc)
  case Nil
  then show ?case by (simp add: long_format_def)
next
  case (Cons rcd raw_data)
  then have c: "complete_record rcd" and rest: "list_all complete_record raw_data"
    by simp_all
  have "inner_loop rcd antibiotics acc = Inr (acc @ map (row_of rcd) antibiotics)"
    by (rule inner_loop_rows) (rule make_row_complete [OF c])
  with Cons.IH [OF rest] show ?case
    by (simp add: long_format_def)
qed

lemma load_complete:
  "list_all complete_record raw_data \<Longrightarrow>
   load_and_transform_data raw_data = Inr (DataFrame (long_format raw_data))"
  by (simp add: load_and_transform_data_def outer_loop_complete)

lemma concat_uniform:
  "(\<And>xs. xs \<in> set xss \<Longrightarrow> length xs = n) \<Longrightarrow>
   length (concat xss) = length xss * n \<and>
   (\<forall>i j. i < length xss \<longrightarrow> j < n \<longrightarrow> concat xss ! (i * n + j) = xss ! i ! j)"
proof (induction xss)
  case Nil
  then show ?case by simp
next
  case (Cons xs xss)
  then have len: "length xs = n" and IH: "length (concat xss) = length xss * n"
    "\<And>i j. i < length xss \<Longrightarrow> j < n \<Longrightarrow> concat xss ! (i * n + j) = xss ! i ! j"
    by auto
  have "concat (xs # xss) ! (i * n + j) = (xs # xss) ! i ! j"
    if "i < length (xs # xss)" "j < n" for i j
  proof (cases i)
    case 0
    with that len show ?thesis by (simp add: nth_append)
  next
    case (Suc k)
    with that len IH(2) [of k j] show ?thesis by (simp add: nth_append)
  qed
  with len IH(1) show ?case by simp
qed

lemma long_format_uniform:
  "length (long_format raw_data) = length raw_data * 3 \<and>
   (\<forall>i j. i < length raw_data \<longrightarrow> j < 3 \<longrightarrow>
      long_format raw_data ! (i * 3 + j) = row_of (raw_data ! i) (antibiotics ! j))"
proof -
  let ?xss = "map (\<lambda>rcd. map (row_of rcd) antibiotics) raw_data"
  have len: "\<And>xs. xs \<in> set ?xss \<Longrightarrow> length xs = 3"
    by (auto simp: antibiotics_def)
  have nth: "?xss ! i ! j = row_of (raw_data ! i) (antibiotics ! j)"
    if "i < length raw_data" "j < 3" for i j
  proof -
    have "length antibiotics = 3" by (simp add: antibiotics_def)
    with that show ?thesis by simp
  qed
  from concat_uniform [of ?xss 3, OF len] nth show ?thesis
    by (simp add: long_format_def)
qed

lemma length_long_format: "length (long_format raw_data) = length raw_data * 3"
  using long_format_uniform by blast

lemma nth_long_format:
  "i < length raw_data \<Longrightarrow> j < 3 \<Longrightarrow>
   long_format raw_data ! (i * 3 + j) = row_of (raw_data ! i) (antibiotics ! j)"
  using long_format_uniform by blast

lemma rows_DataFrame_nth:
  "k < length data \<Longrightarrow> rows (DataFrame data) ! k = (k, data ! k)"
  by (simp add: DataFrame_def nth_enumerate_eq)

lemma valid_complete: "valid_record rcd \<Longrightarrow> complete_record rcd"
  by (simp add: valid_record_def)

lemma list_all_valid_complete: "list_all valid_record raw_data \<Longrightarrow> list_all complete_record raw_data"
  by (induction raw_data) (simp_all add: valid_complete)

lemma rows_load_nth:
  assumes "i < length raw_data" "j < 3"
  shows "rows (DataFrame (long_format raw_data)) ! (i * 3 + j) =
         (i * 3 + j, row_of (raw_data ! i) (antibiotics ! j))"
proof -
  from assms have "i * 3 + j < length raw_data * 3" by simp
  then show ?thesis
    using assms by (simp add: rows_DataFrame_nth length_long_format nth_long_format)
qed

lemma length_rows_DataFrame: "length (rows (DataFrame data)) = length data"
  by (simp add: DataFrame_def)

lemma antibiotic_nth_mem: "j < 3 \<Longrightarrow> antibiotics ! j \<in> set antibiotics"
  by (rule nth_mem) (simp add: antibiotics_def)

lemma valid_strep [simp]: "valid_record strep"
  by (simp add: valid_record_def complete_record_def strep_def antibiotics_def)

lemma valid_ecoli [simp]: "valid_record ecoli"
  by (simp add: valid_record_def complete_record_def ecoli_def antibiotics_def)

text \<open>Rows that a mask excludes anyway can be dropped beforehand without changing the
  mean.\<close>

lemma filter_restrict: "(\<And>x. q x \<Longrightarrow> p x) \<Longrightarrow> filter q (filter p xs) = filter q xs"
  by (induction xs) auto

lemma mic_mean_restrict:
  assumes "\<And>r. q r \<Longrightarrow> p r"
  shows "mic_mean (mask_select (df\<lparr>rows := filter (\<lambda>(i, r). p r) (rows df)\<rparr>) q) =
         mic_mean (mask_select df q)"
proof -
  have "filter (\<lambda>(i, r). q r) (filter (\<lambda>(i, r). p r) (rows df)) =
        filter (\<lambda>(i, r). q r) (rows df)"
    by (rule filter_restrict) (auto dest: assms)
  then show ?thesis
    by (simp add: mic_mean_def mic_series_def mask_select_def del: filter_filter)
qed

lemma group_mean_restrict:
  assumes "\<And>r. gram_staining r = JStr g \<Longrightarrow> p r"
  shows "group_mean (df\<lparr>rows := filter (\<lambda>(i, r). p r) (rows df)\<rparr>) g a = group_mean df g a"
proof -
  have "mic_mean (mask_select (df\<lparr>rows := filter (\<lambda>(i, r). p r) (rows df)\<rparr>)
          (\<lambda>r. gram_staining r = JStr g \<and> antibiotic r = a)) =
        mic_mean (mask_select df (\<lambda>r. gram_staining r = JStr g \<and> antibiotic r = a))"
    by (rule mic_mean_restrict) (simp add: assms)
  then show ?thesis
    by (simp add: group_mean_def)
qed

lemma complete_zero_pen [simp]: "complete_record zero_pen"
  by (simp add: complete_record_def zero_pen_def antibiotics_def)

lemma valid_strep_complete [simp]: "complete_record strep"
  by (rule valid_complete) simp

section \<open>Claims about the loader\<close>

text \<open>
  Claim C3. For every valid raw dataset of \<open>N\<close> records (integer MIC values of
  magnitude at most \<open>2^53\<close>, see \<open>is_number\<close>) the load returns a table of exactly
  \<open>N * 3\<close> rows. Record order is preserved and the rows of a record come in the
  declared order: the row at position \<open>i * 3 + j\<close> (which is also its label) is the row
  built from record \<open>i\<close> and the \<open>j\<close>-th of Penicillin, Streptomycin, Neomycin.
\<close>

theorem normalization_rows_in_order:
  assumes "list_all valid_record raw_data"
  shows "\<exists>df. load_and_transform_data raw_data = Inr df \<and>
      length (rows df) = length raw_data * 3 \<and>
      (\<forall>i < length raw_data. \<forall>j < 3.
         fst (rows df ! (i * 3 + j)) = i * 3 + j \<and>
         make_row (raw_data ! i) ([''Penicillin'', ''Streptomycin'', ''Neomycin''] ! j) =
           Inr (snd (rows df ! (i * 3 + j))) \<and>
         antibiotic (snd (rows df ! (i * 3 + j))) =
           [''Penicillin'', ''Streptomycin'', ''Neomycin''] ! j)"
proof -
  from assms have c: "list_all complete_record raw_data"
    by (rule list_all_valid_complete)
  let ?df = "DataFrame (long_format raw_data)"
  have "make_row (raw_data ! i) (antibiotics ! j) = Inr (row_of (raw_data ! i) (antibiotics ! j))"
    if "i < length raw_data" "j < 3" for i j
    using c that by (intro make_row_complete antibiotic_nth_mem) (simp_all add: list_all_length)
  moreover have "antibiotic (row_of rcd a) = a" for rcd a
    by (simp add: row_of_def)
  moreover have "antibiotics = [''Penicillin'', ''Streptomycin'', ''Neomycin'']"
    by (simp add: antibiotics_def)
  ultimately have "length (rows ?df) = length raw_data * 3 \<and>
      (\<forall>i < length raw_data. \<forall>j < 3.
         fst (rows ?df ! (i * 3 + j)) = i * 3 + j \<and>
         make_row (raw_data ! i) ([''Penicillin'', ''Streptomycin'', ''Neomycin''] ! j) =
           Inr (snd (rows ?df ! (i * 3 + j))) \<and>
         antibiotic (snd (rows ?df ! (i * 3 + j))) =
           [''Penicillin'', ''Streptomycin'', ''Neomycin''] ! j)"
    by (simp add: rows_load_nth length_rows_DataFrame length_long_format)
  with load_complete [OF c] show ?thesis by blast
qed

theorem normalization_rows_in_order_witness:
  "list_all valid_record [strep, ecoli] \<and>
   (\<exists>df. load_and_transform_data [strep, ecoli] = Inr df \<and> length (rows df) = 6 \<and>
      map (\<lambda>(l, r). (l, antibiotic r)) (rows df) =
        [(0, ''Penicillin''), (1, ''Streptomycin''), (2, ''Neomycin''),
         (3, ''Penicillin''), (4, ''Streptomycin''), (5, ''Neomycin'')])"
proof -
  have h: "list_all valid_record [strep, ecoli]"
    by (simp add: valid_strep valid_ecoli)
  from normalization_rows_in_order [OF h] obtain df where
    df: "load_and_transform_data [strep, ecoli] = Inr df" by blast
  have "load_and_transform_data [strep, ecoli] =
      Inr (DataFrame (long_format [strep, ecoli]))"
    by (rule load_complete [OF list_all_valid_complete [OF h]])
  with df have "df = DataFrame (long_format [strep, ecoli])" by simp
  then have "length (rows df) = 6 \<and> map (\<lambda>(l, r). (l, antibiotic r)) (rows df) =
        [(0, ''Penicillin''), (1, ''Streptomycin''), (2, ''Neomycin''),
         (3, ''Penicillin''), (4, ''Streptomycin''), (5, ''Neomycin'')]"
    by (simp add: DataFrame_def long_format_def antibiotics_def row_of_def)
  with h df show ?thesis by (intro conjI exI [of _ df]) simp_all
qed

text \<open>
  Claim C4. In the table loaded from a valid raw dataset, every row has \<open>log_mic\<close> equal
  to the base-10 logarithm of its \<open>mic\<close> (the model takes the logarithm exact; numpy
  returns a double next to it), and its bacteria, genus, gram staining and MIC value are
  the fields of the record it comes from: row \<open>k\<close> comes from record \<open>k div 3\<close>, and
  its \<open>mic\<close> is the number of that record's cell for the row's antibiotic. A valid
  record has integer MIC values of at most \<open>2^53\<close>, which the table stores unchanged.
\<close>

theorem normalized_row_fields:
  assumes "list_all valid_record raw_data"
    and "load_and_transform_data raw_data = Inr df"
    and "k < length (rows df)"
  shows "k div 3 < length raw_data \<and>
     log_mic (snd (rows df ! k)) = Fin (log 10 (mic (snd (rows df ! k)))) \<and>
     (raw_data ! (k div 3)) ''Bacteria'' = Some (bacteria (snd (rows df ! k))) \<and>
     (raw_data ! (k div 3)) ''Genus'' = Some (genus (snd (rows df ! k))) \<and>
     (raw_data ! (k div 3)) ''Gram_Staining'' = Some (gram_staining (snd (rows df ! k))) \<and>
     is_number ((raw_data ! (k div 3)) (antibiotic (snd (rows df ! k)))) \<and>
     num_of ((raw_data ! (k div 3)) (antibiotic (snd (rows df ! k)))) = mic (snd (rows df ! k))"
proof -
  from assms(1) have c: "list_all complete_record raw_data"
    by (rule list_all_valid_complete)
  from load_complete [OF c] assms(2) have df: "df = DataFrame (long_format raw_data)"
    by simp
  with assms(3) have k: "k < length raw_data * 3"
    by (simp add: length_rows_DataFrame length_long_format)
  define i j where "i = k div 3" and "j = k mod 3"
  from k have i: "i < length raw_data" and j: "j < 3" and kij: "k = i * 3 + j"
    by (simp_all add: i_def j_def less_mult_imp_div_less)
  define rcd a where "rcd = raw_data ! i" and "a = antibiotics ! j"
  have row: "snd (rows df ! k) = row_of rcd a"
    unfolding df kij rcd_def a_def using i j by (simp add: rows_load_nth)
  from assms(1) i have v: "valid_record rcd"
    by (simp add: rcd_def list_all_length)
  have a: "a \<in> set antibiotics"
    unfolding a_def using j by (rule antibiotic_nth_mem)
  with v have "is_positive (rcd a)" and n: "is_number (rcd a)"
    by (simp_all add: valid_record_def complete_record_def list_all_iff)
  then have x: "0 < num_of (rcd a)"
    by (cases "rcd a" rule: is_positive.cases) simp_all
  from v obtain b g ge where f: "rcd ''Bacteria'' = Some b"
      "rcd ''Gram_Staining'' = Some g" "rcd ''Genus'' = Some ge"
    by (auto simp: valid_record_def complete_record_def)
  show ?thesis
    unfolding row using i x n f
    by (simp add: row_of_def np_log10_def i_def [symmetric] rcd_def [symmetric])
qed

theorem normalized_row_fields_witness:
  "list_all valid_record [strep] \<and>
   load_and_transform_data [strep] = Inr (DataFrame (long_format [strep])) \<and>
   (1::nat) < length (rows (DataFrame (long_format [strep]))) \<and>
   log_mic (snd (rows (DataFrame (long_format [strep])) ! 1)) = Fin 1 \<and>
   strep ''Bacteria'' = Some (bacteria (snd (rows (DataFrame (long_format [strep])) ! 1))) \<and>
   strep ''Streptomycin'' = Some (JInt 10) \<and>
   mic (snd (rows (DataFrame (long_format [strep])) ! 1)) = 10"
proof -
  let ?df = "DataFrame (long_format [strep])"
  have h1: "list_all valid_record [strep]" by simp
  have h2: "load_and_transform_data [strep] = Inr ?df"
    by (rule load_complete [OF list_all_valid_complete [OF h1]])
  have h3: "1 < length (rows ?df)"
    by (simp add: length_rows_DataFrame length_long_format)
  have r: "snd (rows ?df ! 1) = row_of strep ''Streptomycin''"
    using rows_load_nth [of 0 "[strep]" 1] by (simp add: antibiotics_def)
  from normalized_row_fields [OF h1 h2 h3, unfolded r] h1 h2 h3 show ?thesis
    unfolding r by (simp add: row_of_def strep_def)
qed

text \<open>
  Claim C1 (as amended). The claim as stated fails: the loader has no check of the sign of
  a MIC value, and \<^verbatim>\<open>np.log10\<close> returns instead of raising. What holds: when every
  record has its fields and numeric MIC values (floats, or integers of magnitude at most
  \<open>2^53\<close>), the load does not fail on a non-positive MIC value; the row of that value is
  in the table, with \<open>log_mic = -infinity\<close> for a value of zero and \<open>log_mic = NaN\<close>
  for a negative value.
\<close>

theorem load_nonpositive_mic:
  assumes "list_all complete_record raw_data"
    and "i < length raw_data" and "j < 3"
    and "num_of ((raw_data ! i) ([''Penicillin'', ''Streptomycin'', ''Neomycin''] ! j)) = x"
    and "x \<le> 0"
  shows "\<exists>df. load_and_transform_data raw_data = Inr df \<and>
           mic (snd (rows df ! (i * 3 + j))) = x \<and>
           log_mic (snd (rows df ! (i * 3 + j))) = (if x = 0 then NInf else NaN)"
proof -
  have a: "antibiotics = [''Penicillin'', ''Streptomycin'', ''Neomycin'']"
    by (simp add: antibiotics_def)
  from assms(4) have "num_of ((raw_data ! i) (antibiotics ! j)) = x"
    by (simp add: a)
  then have "mic (row_of (raw_data ! i) (antibiotics ! j)) = x"
    and "log_mic (row_of (raw_data ! i) (antibiotics ! j)) = (if x = 0 then NInf else NaN)"
    using assms(5) by (simp_all add: row_of_def np_log10_def)
  with load_complete [OF assms(1)] rows_load_nth [OF assms(2,3)] show ?thesis
    by simp
qed

theorem load_nonpositive_mic_witness:
  "list_all complete_record [strep, zero_pen] \<and> (1::nat) < length [strep, zero_pen] \<and> (0::nat) < 3 \<and>
   ([strep, zero_pen] ! 1) ([''Penicillin'', ''Streptomycin'', ''Neomycin''] ! 0) = Some (JInt 0) \<and>
   num_of (([strep, zero_pen] ! 1) ([''Penicillin'', ''Streptomycin'', ''Neomycin''] ! 0)) = 0 \<and>
   (0::real) \<le> 0 \<and>
   (\<exists>df. load_and_transform_data [strep, zero_pen] = Inr df \<and>
      mic (snd (rows df ! 3)) = 0 \<and> log_mic (snd (rows df ! 3)) = NInf)"
proof -
  have h1: "list_all complete_record [strep, zero_pen]" by simp
  have h2: "(1::nat) < length [strep, zero_pen]" by simp
  have h3: "(0::nat) < 3" by simp
  have c: "([strep, zero_pen] ! 1) ([''Penicillin'', ''Streptomycin'', ''Neomycin''] ! 0) = Some (JInt 0)"
    by (simp add: zero_pen_def)
  then have h4: "num_of (([strep, zero_pen] ! 1)
      ([''Penicillin'', ''Streptomycin'', ''Neomycin''] ! 0)) = 0"
    by simp
  have h5: "(0::real) \<le> 0" by simp
  from load_nonpositive_mic [OF h1 h2 h3 h4 h5] h1 c h4 show ?thesis
    by simp
qed

text \<open>
  The claim as stated is false at the one-record dataset \<open>[zero_pen]\<close>, whose
  Penicillin value is \<open>0\<close>: the load returns a table, and its first row has
  \<open>log_mic = -infinity\<close>.
\<close>

theorem load_zero_mic_not_rejected:
  "load_and_transform_data [zero_pen] =
     Inr \<lparr>columns = [''bacteria'', ''antibiotic'', ''mic'', ''gram_staining'', ''genus'', ''log_mic''],
          rows = [(0, \<lparr>bacteria = JStr ''X'', antibiotic = ''Penicillin'', mic = 0,
                       gram_staining = JStr ''variable'', genus = JStr ''other'', log_mic = NInf\<rparr>),
                  (1, \<lparr>bacteria = JStr ''X'', antibiotic = ''Streptomycin'', mic = 1,
                       gram_staining = JStr ''variable'', genus = JStr ''other'', log_mic = Fin 0\<rparr>),
                  (2, \<lparr>bacteria = JStr ''X'', antibiotic = ''Neomycin'', mic = 10,
                       gram_staining = JStr ''variable'', genus = JStr ''other'', log_mic = Fin 1\<rparr>)]\<rparr>"
  by (simp add: load_and_transform_data_def antibiotics_def make_row_def getitem_def
      zero_pen_def np_log10_def DataFrame_def row_columns_def)

text \<open>
  Claim C10. The gram staining of a record is copied into its rows and never validated:
  the load succeeds on every list of complete records (all fields present, MIC values
  floats or integers of magnitude at most \<open>2^53\<close>), whatever their gram-staining
  values, and each of the three rows of record \<open>i\<close> carries that record's value. Rows
  whose gram staining is neither \<^verbatim>\<open>'positive'\<close> nor \<^verbatim>\<open>'negative'\<close> count in
  neither Penicillin group mean: dropping them from the table changes neither mean.
\<close>

theorem gram_staining_not_validated:
  assumes "list_all complete_record raw_data"
  shows "\<exists>df. load_and_transform_data raw_data = Inr df \<and>
     (\<forall>i < length raw_data. \<forall>j < 3.
        (raw_data ! i) ''Gram_Staining'' = Some (gram_staining (snd (rows df ! (i * 3 + j))))) \<and>
     gram_pos_pen (df\<lparr>rows := filter (\<lambda>(l, r). gram_staining r = JStr ''positive'' \<or>
                                    gram_staining r = JStr ''negative'') (rows df)\<rparr>) = gram_pos_pen df \<and>
     gram_neg_pen (df\<lparr>rows := filter (\<lambda>(l, r). gram_staining r = JStr ''positive'' \<or>
                                    gram_staining r = JStr ''negative'') (rows df)\<rparr>) = gram_neg_pen df"
proof -
  let ?df = "DataFrame (long_format raw_data)"
  let ?p = "\<lambda>r. gram_staining r = JStr ''positive'' \<or> gram_staining r = JStr ''negative''"
  have g: "(raw_data ! i) ''Gram_Staining'' = Some (gram_staining (snd (rows ?df ! (i * 3 + j))))"
    if "i < length raw_data" "j < 3" for i j
  proof -
    from assms that(1) have "complete_record (raw_data ! i)"
      by (simp add: list_all_length)
    then obtain v where "(raw_data ! i) ''Gram_Staining'' = Some v"
      by (auto simp: complete_record_def)
    with that show ?thesis
      by (simp add: rows_load_nth row_of_def)
  qed
  have "group_mean (?df\<lparr>rows := filter (\<lambda>(l, r). ?p r) (rows ?df)\<rparr>) s a = group_mean ?df s a"
    if "s = ''positive'' \<or> s = ''negative''" for s a
    using that by (intro group_mean_restrict) auto
  then have "gram_pos_pen (?df\<lparr>rows := filter (\<lambda>(l, r). ?p r) (rows ?df)\<rparr>) = gram_pos_pen ?df"
    and "gram_neg_pen (?df\<lparr>rows := filter (\<lambda>(l, r). ?p r) (rows ?df)\<rparr>) = gram_neg_pen ?df"
    by (simp_all add: gram_pos_pen_def gram_neg_pen_def)
  with g load_complete [OF assms] show ?thesis
    by (intro exI [of _ ?df]) simp
qed

theorem gram_staining_not_validated_witness:
  "list_all complete_record [strep, zero_pen] \<and>
   zero_pen ''Gram_Staining'' = Some (JStr ''variable'') \<and>
   (\<exists>df. load_and_transform_data [strep, zero_pen] = Inr df \<and>
      gram_staining (snd (rows df ! 3)) = JStr ''variable'' \<and>
      gram_pos_pen (df\<lparr>rows := filter (\<lambda>(l, r). gram_staining r = JStr ''positive'' \<or>
                                    gram_staining r = JStr ''negative'') (rows df)\<rparr>) = gram_pos_pen df)"
proof -
  have h: "list_all complete_record [strep, zero_pen]" by simp
  have z: "zero_pen ''Gram_Staining'' = Some (JStr ''variable'')"
    by (simp add: zero_pen_def)
  from gram_staining_not_validated [OF h] obtain df where
    df: "load_and_transform_data [strep, zero_pen] = Inr df"
    and g: "\<forall>i < length [strep, zero_pen]. \<forall>j < 3.
        ([strep, zero_pen] ! i) ''Gram_Staining'' = Some (gram_staining (snd (rows df ! (i * 3 + j))))"
    and m: "gram_pos_pen (df\<lparr>rows := filter (\<lambda>(l, r). gram_staining r = JStr ''positive'' \<or>
                                    gram_staining r = JStr ''negative'') (rows df)\<rparr>) = gram_pos_pen df"
    by auto
  from g [rule_format, of 1 0] z have "gram_staining (snd (rows df ! 3)) = JStr ''variable''"
    by simp
  with h z df m show ?thesis
    by (intro conjI exI [of _ df]) simp_all
qed

section \<open>Frames: selections and means\<close>

lemma load_strep: "load_and_transform_data [strep] = Inr strep_frame"
  by (simp add: load_and_transform_data_def antibiotics_def make_row_def getitem_def
      strep_def np_log10_def DataFrame_def row_columns_def strep_frame_def)

lemma mic_mean_empty:
  "''mic'' \<in> set (columns df) \<Longrightarrow> rows df = [] \<Longrightarrow> mic_mean df = Inr NaN"
  by (simp add: mic_mean_def mic_series_def mean_def)

text \<open>
  Claim C2 (as amended). The claim as stated fails: no statement of the script raises on an
  empty group; \<^verbatim>\<open>mean()\<close> of an empty selection is NaN. What holds: for every table
  that has its columns and every key (antibiotic, gram staining) that no row matches, the
  group mean raises no error and returns NaN, both as computed at lines 44-45 (one mask)
  and as computed in the summary loop at lines 211-213 (two selections).
\<close>

theorem empty_group_mean_nan:
  assumes "''gram_staining'' \<in> set (columns df)" and "''antibiotic'' \<in> set (columns df)"
    and "''mic'' \<in> set (columns df)"
    and "\<not> (\<exists>(l, r) \<in> set (rows df). gram_staining r = JStr g \<and> antibiotic r = a)"
  shows "group_mean df g a = Inr NaN \<and>
         (case antibiotic_data df a of Inl e \<Rightarrow> Inl e | Inr ad \<Rightarrow> gram_avg ad g) = Inr NaN"
proof -
  from assms(4) have e1: "filter (\<lambda>(l, r). gram_staining r = JStr g \<and> antibiotic r = a) (rows df) = []"
    by (auto simp: filter_empty_conv)
  from assms(4) have e2: "filter (\<lambda>(l, r). gram_staining r = JStr g)
      (filter (\<lambda>(l, r). antibiotic r = a) (rows df)) = []"
    by (auto simp: filter_empty_conv)
  from assms(1-3) e1 have "group_mean df g a = Inr NaN"
    by (simp add: group_mean_def mic_mean_empty mask_select_def)
  moreover from assms(1-3) e2 have
    "(case antibiotic_data df a of Inl e \<Rightarrow> Inl e | Inr ad \<Rightarrow> gram_avg ad g) = Inr NaN"
    by (simp add: antibiotic_data_def gram_avg_def mic_mean_empty mask_select_def
        del: filter_filter)
  ultimately show ?thesis by simp
qed

text \<open>
  The claim as stated is false at the table loaded from \<open>[strep]\<close>, which has no
  gram-negative row: the gram-negative Penicillin mean is the value NaN, not an error.
\<close>

theorem empty_group_no_error:
  "load_and_transform_data [strep] = Inr strep_frame \<and>
   group_mean strep_frame ''negative'' ''Penicillin'' = Inr NaN \<and>
   gram_neg_pen strep_frame = Inr NaN"
  by (simp add: load_strep gram_neg_pen_def group_mean_def mic_mean_def mic_series_def
      mask_select_def mean_def strep_frame_def)

theorem empty_group_mean_nan_witness:
  "''gram_staining'' \<in> set (columns strep_frame) \<and> ''antibiotic'' \<in> set (columns strep_frame) \<and>
   ''mic'' \<in> set (columns strep_frame) \<and>
   \<not> (\<exists>(l, r) \<in> set (rows strep_frame). gram_staining r = JStr ''negative'' \<and> antibiotic r = ''Neomycin'') \<and>
   group_mean strep_frame ''negative'' ''Neomycin'' = Inr NaN \<and>
   (case antibiotic_data strep_frame ''Neomycin'' of Inl e \<Rightarrow> Inl e
    | Inr ad \<Rightarrow> gram_avg ad ''negative'') = Inr NaN"
proof -
  have h1: "''gram_staining'' \<in> set (columns strep_frame)"
    and h2: "''antibiotic'' \<in> set (columns strep_frame)"
    and h3: "''mic'' \<in> set (columns strep_frame)"
    by (simp_all add: strep_frame_def)
  have h4: "\<not> (\<exists>(l, r) \<in> set (rows strep_frame).
      gram_staining r = JStr ''negative'' \<and> antibiotic r = ''Neomycin'')"
    by (simp add: strep_frame_def)
  from empty_group_mean_nan [OF h1 h2 h3 h4] h1 h2 h3 h4 show ?thesis
    by simp
qed

text \<open>The table of zero records has no columns; there the first column lookup raises
  \<^verbatim>\<open>KeyError\<close>.\<close>

lemma group_mean_no_columns: "columns df = [] \<Longrightarrow> group_mean df g a = Inl (KeyError ''gram_staining'')"
  by (simp add: group_mean_def)

lemma columns_mask_select [simp]: "columns (mask_select df p) = columns df"
  by (simp add: mask_select_def)

lemma rows_mask_select [simp]: "rows (mask_select df p) = filter (\<lambda>(i, r). p r) (rows df)"
  by (simp add: mask_select_def)

lemma filter_rows_twice:
  "filter (\<lambda>(i, r). q r) (filter (\<lambda>(i, r). p r) xs) = filter (\<lambda>(i, r). q r \<and> p r) xs"
  by (induction xs) auto

lemma summary_row_group_mean:
  "''gram_staining'' \<in> set (columns df) \<Longrightarrow> ''antibiotic'' \<in> set (columns df) \<Longrightarrow>
   (case antibiotic_data df a of Inl e \<Rightarrow> Inl e | Inr ad \<Rightarrow> gram_avg ad g) = group_mean df g a"
  by (simp add: antibiotic_data_def gram_avg_def group_mean_def mask_select_def
      filter_rows_twice del: filter_filter)

text \<open>
  Claim C9. For every table, the ratio computed at lines 44-46 and the ratio computed in
  the summary loop for Penicillin agree: one evaluates to a value exactly when the other
  does, and to the same value; otherwise both raise (a missing column).
\<close>

theorem headline_ratio_is_summary_ratio:
  "(effectiveness_ratio df = Inr v) = (summary_ratio df ''Penicillin'' = Inr v) \<and>
   isl (effectiveness_ratio df) = isl (summary_ratio df ''Penicillin'')"
proof (cases "''gram_staining'' \<in> set (columns df) \<and> ''antibiotic'' \<in> set (columns df)")
  case True
  then have g: "''gram_staining'' \<in> set (columns df)" and a: "''antibiotic'' \<in> set (columns df)"
    by simp_all
  from summary_row_group_mean [OF g a, where a = "''Penicillin''"] a
  have s: "gram_avg (mask_select df (\<lambda>r. antibiotic r = ''Penicillin'')) s =
           group_mean df s ''Penicillin''" for s
    by (simp add: antibiotic_data_def)
  have "summary_ratio df ''Penicillin'' = effectiveness_ratio df"
    using a
    by (simp add: summary_ratio_def summary_row_def antibiotic_data_def s
        effectiveness_ratio_def gram_pos_pen_def gram_neg_pen_def split: sum.splits)
  then show ?thesis by simp
next
  case False
  then show ?thesis
    by (auto simp: summary_ratio_def summary_row_def antibiotic_data_def gram_avg_def
        effectiveness_ratio_def gram_pos_pen_def gram_neg_pen_def group_mean_def
        split: sum.splits)
qed

text \<open>
  Claim C7. With both selections \<^verbatim>\<open>'All'\<close> the filtered view is the input table
  itself. For every choice of the two selections, the view that is returned has the
  columns of the input and its rows are a subsequence of the input's rows (labels
  included), in the same order; and one is returned whenever the table has the two
  columns that are compared.
\<close>

theorem filtered_df_identity_subseq:
  "filtered_df df ''All'' ''All'' = Inr df \<and>
   (\<forall>out. filtered_df df g a = Inr out \<longrightarrow>
      subseq (rows out) (rows df) \<and> columns out = columns df) \<and>
   (''gram_staining'' \<in> set (columns df) \<and> ''antibiotic'' \<in> set (columns df) \<longrightarrow>
      (\<exists>out. filtered_df df g a = Inr out))"
proof -
  have 1: "filtered_df df ''All'' ''All'' = Inr df"
    by (simp add: filtered_df_def)
  have 2: "subseq (rows out) (rows df) \<and> columns out = columns df"
    if "filtered_df df g a = Inr out" for out
    using that
    by (auto simp: filtered_df_def mask_select_def split: if_splits
        intro: subseq_order.trans [OF subseq_filter_left subseq_filter_left])
  have 3: "\<exists>out. filtered_df df g a = Inr out"
    if "''gram_staining'' \<in> set (columns df) \<and> ''antibiotic'' \<in> set (columns df)"
    using that by (simp add: filtered_df_def mask_select_def)
  from 1 2 3 show ?thesis by blast
qed

theorem filtered_df_identity_subseq_witness:
  "filtered_df (DataFrame sample_rows) ''All'' ''All'' = Inr (DataFrame sample_rows) \<and>
   ''gram_staining'' \<in> set (columns (DataFrame sample_rows)) \<and>
   ''antibiotic'' \<in> set (columns (DataFrame sample_rows)) \<and>
   (\<exists>out. filtered_df (DataFrame sample_rows) ''positive'' ''Penicillin'' = Inr out \<and>
      subseq (rows out) (rows (DataFrame sample_rows)) \<and>
      columns out = columns (DataFrame sample_rows))"
proof -
  note t = filtered_df_identity_subseq
    [of "DataFrame sample_rows" "''positive''" "''Penicillin''"]
  have c: "''gram_staining'' \<in> set (columns (DataFrame sample_rows)) \<and>
      ''antibiotic'' \<in> set (columns (DataFrame sample_rows))"
    by (simp add: DataFrame_def sample_rows_def row_columns_def)
  from t [THEN conjunct2, THEN conjunct2, rule_format, OF c] obtain out where
    o: "filtered_df (DataFrame sample_rows) ''positive'' ''Penicillin'' = Inr out" ..
  from t [THEN conjunct2, THEN conjunct1, rule_format, OF o] o
  have "\<exists>out. filtered_df (DataFrame sample_rows) ''positive'' ''Penicillin'' = Inr out \<and>
      subseq (rows out) (rows (DataFrame sample_rows)) \<and>
      columns out = columns (DataFrame sample_rows)"
    by (intro exI [of _ out]) simp
  with t [THEN conjunct1] c show ?thesis by simp
qed

section \<open>The order of the rows and the ratio\<close>


















section \<open>Extrema and ties\<close>

text \<open>The scan of \<open>idxmin\<close> splits the series at the label it returns: the values before
  are strictly greater, the values after are not smaller. \<open>idxmax\<close> is \<open>idxmin\<close> on
  the negated values.\<close>

lemma idxmin_from_decomp:
  "\<exists>pre l v post. x # s = pre @ (l, v) # post \<and> idxmin_from x s = l \<and>
     (\<forall>p \<in> set pre. v < snd p) \<and> (\<forall>p \<in> set post. v \<le> snd p)"
proof (induction s arbitrary: x)
  case Nil
  obtain i v where x: "x = (i, v)" by (cases x)
  have "x # [] = [] @ (i, v) # [] \<and> idxmin_from x [] = i \<and>
     (\<forall>p \<in> set []. v < snd p) \<and> (\<forall>p \<in> set []. v \<le> snd p)"
    by (simp add: x)
  then show ?case by blast
next
  case (Cons y s)
  obtain i v where x: "x = (i, v)" by (cases x)
  obtain j w where y: "y = (j, w)" by (cases y)
  show ?case
  proof (cases "w < v")
    case True
    from Cons.IH [of y] obtain pre l m post where
      d: "y # s = pre @ (l, m) # post" and r: "idxmin_from y s = l"
      and b: "\<forall>p \<in> set pre. m < snd p" and a: "\<forall>p \<in> set post. m \<le> snd p"
      by blast
    have "m \<le> w"
    proof (cases pre)
      case Nil
      with d y show ?thesis by simp
    next
      case (Cons p pre')
      with d have "y \<in> set pre" by simp
      with b y show ?thesis by fastforce
    qed
    with True have "m < v" by simp
    with b have b': "\<forall>p \<in> set (x # pre). m < snd p" by (simp add: x)
    from d have "x # y # s = (x # pre) @ (l, m) # post" by simp
    moreover from True r have "idxmin_from x (y # s) = l" by (simp add: x y)
    ultimately show ?thesis using b' a by blast
  next
    case False
    from Cons.IH [of x] obtain pre l m post where
      d: "x # s = pre @ (l, m) # post" and r: "idxmin_from x s = l"
      and b: "\<forall>p \<in> set pre. m < snd p" and a: "\<forall>p \<in> set post. m \<le> snd p"
      by blast
    from False r have r': "idxmin_from x (y # s) = l" by (simp add: x y)
    show ?thesis
    proof (cases pre)
      case Nil
      with d have e: "(l, m) = x" "post = s" by simp_all
      with False x y a have "\<forall>p \<in> set (y # s). m \<le> snd p" by auto
      moreover from e have "x # y # s = [] @ (l, m) # (y # s)" by simp
      ultimately show ?thesis using r' by (metis empty_iff empty_set)
    next
      case (Cons p pre')
      with d have e: "p = x" "s = pre' @ (l, m) # post" by simp_all
      with b Cons x have "m < v" by auto
      with False have "m < w" by simp
      with b Cons e y have "\<forall>p \<in> set (x # y # pre'). m < snd p" by auto
      moreover from e have "x # y # s = (x # y # pre') @ (l, m) # post" by simp
      ultimately show ?thesis using r' a by blast
    qed
  qed
qed

lemma idxmax_from_neg:
  "idxmax_from (i, v) s = idxmin_from (i, - v) (map (\<lambda>(j, w). (j, - w)) s)"
  by (induction s arbitrary: i v) auto

lemma idxmax_neg: "idxmax s = idxmin (map (\<lambda>(j, w). (j, - w)) s)"
  by (cases s) (auto simp: idxmax_from_neg)

lemma first_least_row:
  fixes key :: "row \<Rightarrow> real"
  assumes "distinct (map fst xs)" and "xs \<noteq> []"
  shows "\<exists>pre l b post. xs = pre @ (l, b) # post \<and>
     idxmin (map (\<lambda>(i, r). (i, key r)) xs) = Inr l \<and> map_of xs l = Some b \<and>
     (\<forall>p \<in> set pre. key b < key (snd p)) \<and> (\<forall>p \<in> set post. key b \<le> key (snd p))"
proof -
  let ?f = "\<lambda>(i, r). (i, key r)"
  from assms(2) obtain z zs where xs: "xs = z # zs" by (cases xs) auto
  from idxmin_from_decomp [of "?f z" "map ?f zs"] obtain pre l v post where
    d: "?f z # map ?f zs = pre @ (l, v) # post" and r: "idxmin_from (?f z) (map ?f zs) = l"
    and b: "\<forall>p \<in> set pre. v < snd p" and a: "\<forall>p \<in> set post. v \<le> snd p"
    by blast
  from d have "map ?f xs = pre @ (l, v) # post" by (simp add: xs)
  then obtain us u vs where e: "xs = us @ u # vs" "pre = map ?f us" "?f u = (l, v)" "post = map ?f vs"
    by (auto simp: map_eq_append_conv map_eq_Cons_conv)
  obtain l' c where u: "u = (l', c)" by (cases u)
  with e(3) have lv: "l' = l" "key c = v" by simp_all
  from e(1) u lv have "(l, c) \<in> set xs" by simp
  with assms(1) have m: "map_of xs l = Some c" by simp
  from r have i: "idxmin (map ?f xs) = Inr l" by (simp add: xs)
  from b e(2) lv have b': "\<forall>p \<in> set us. key c < key (snd p)" by (auto simp: case_prod_beta)
  from a e(4) lv have a': "\<forall>p \<in> set vs. key c \<le> key (snd p)" by (auto simp: case_prod_beta)
  from e(1) u lv have "xs = us @ (l, c) # vs" by simp
  with i m b' a' show ?thesis by blast
qed

lemma filter_eq_decomp:
  "filter Q ys = pre @ z # post \<Longrightarrow>
   \<exists>us vs. ys = us @ z # vs \<and> filter Q us = pre \<and> filter Q vs = post"
proof (induction ys arbitrary: pre)
  case Nil
  then show ?case by simp
next
  case (Cons y ys)
  show ?case
  proof (cases "Q y")
    case False
    with Cons.prems have "filter Q ys = pre @ z # post" by simp
    from Cons.IH [OF this] obtain us vs where
      "ys = us @ z # vs" "filter Q us = pre" "filter Q vs = post" by blast
    with False have "y # ys = (y # us) @ z # vs \<and> filter Q (y # us) = pre \<and> filter Q vs = post"
      by simp
    then show ?thesis by blast
  next
    case True
    with Cons.prems have p: "y # filter Q ys = pre @ z # post" by simp
    show ?thesis
    proof (cases pre)
      case Nil
      with p have "y # ys = [] @ z # ys \<and> filter Q [] = pre \<and> filter Q ys = post" by simp
      then show ?thesis by blast
    next
      case (Cons q pre')
      with p have q: "q = y" "filter Q ys = pre' @ z # post" by simp_all
      from Cons.IH [OF q(2)] obtain us vs where
        "ys = us @ z # vs" "filter Q us = pre'" "filter Q vs = post" by blast
      with True Cons q(1) have
        "y # ys = (y # us) @ z # vs \<and> filter Q (y # us) = pre \<and> filter Q vs = post"
        by simp
      then show ?thesis by blast
    qed
  qed
qed

lemma first_least_in_table:
  fixes key :: "row \<Rightarrow> real"
  assumes "\<exists>r \<in> set data. antibiotic r = a"
  shows "\<exists>pre b post l. data = pre @ b # post \<and> antibiotic b = a \<and>
     idxmin (map (\<lambda>(i, r). (i, key r))
       (filter (\<lambda>(i, r). antibiotic r = a) (enumerate 0 data))) = Inr l \<and>
     map_of (filter (\<lambda>(i, r). antibiotic r = a) (enumerate 0 data)) l = Some b \<and>
     (\<forall>r \<in> set pre. antibiotic r = a \<longrightarrow> key b < key r) \<and>
     (\<forall>r \<in> set post. antibiotic r = a \<longrightarrow> key b \<le> key r)"
proof -
  let ?Q = "\<lambda>(i, r). antibiotic r = a"
  let ?sel = "filter ?Q (enumerate 0 data)"
  have dist: "distinct (map fst ?sel)"
    by (rule distinct_map_filter) simp
  from assms obtain r where "r \<in> set data" "antibiotic r = a" by blast
  then obtain k where "k < length data" "data ! k = r"
    by (auto simp: in_set_conv_nth)
  with \<open>antibiotic r = a\<close> have "(k, r) \<in> set ?sel"
    by (simp add: in_set_enumerate_eq)
  then have ne: "?sel \<noteq> []" by (metis empty_iff empty_set)
  from first_least_row [OF dist ne, of key] obtain pre' l b post' where
    d: "?sel = pre' @ (l, b) # post'"
    and i: "idxmin (map (\<lambda>(i, r). (i, key r)) ?sel) = Inr l"
    and m: "map_of ?sel l = Some b"
    and bf: "\<forall>p \<in> set pre'. key b < key (snd p)"
    and af: "\<forall>p \<in> set post'. key b \<le> key (snd p)"
    by blast
  from filter_eq_decomp [OF d] obtain us vs where
    e: "enumerate 0 data = us @ (l, b) # vs" and fu: "filter ?Q us = pre'"
    and fv: "filter ?Q vs = post'"
    by blast
  from e have "map snd (enumerate 0 data) = map snd us @ b # map snd vs"
    by simp
  then have data: "data = map snd us @ b # map snd vs" by simp
  have "(l, b) \<in> set ?sel" by (simp add: d)
  then have ab: "antibiotic b = a" by simp
  have b': "key b < key r" if "r \<in> set (map snd us)" "antibiotic r = a" for r
  proof -
    from that obtain p where "p \<in> set us" "snd p = r" by auto
    with that(2) have "p \<in> set (filter ?Q us)" by (auto simp: case_prod_beta)
    with fu bf \<open>snd p = r\<close> show ?thesis by auto
  qed
  have a': "key b \<le> key r" if "r \<in> set (map snd vs)" "antibiotic r = a" for r
  proof -
    from that obtain p where "p \<in> set vs" "snd p = r" by auto
    with that(2) have "p \<in> set (filter ?Q vs)" by (auto simp: case_prod_beta)
    with fv af \<open>snd p = r\<close> show ?thesis by auto
  qed
  from data ab i m b' a' show ?thesis by blast
qed

lemma columns_DataFrame: "data \<noteq> [] \<Longrightarrow> columns (DataFrame data) = row_columns"
  by (simp add: DataFrame_def)

lemma rows_DataFrame: "rows (DataFrame data) = enumerate 0 data"
  by (simp add: DataFrame_def)

lemma best_eq:
  assumes "data \<noteq> []"
  shows "best (DataFrame data) a =
    (case idxmin (map (\<lambda>(i, r). (i, mic r))
            (filter (\<lambda>(i, r). antibiotic r = a) (enumerate 0 data))) of
       Inl e \<Rightarrow> Inl e
     | Inr l \<Rightarrow> (case map_of (filter (\<lambda>(i, r). antibiotic r = a) (enumerate 0 data)) l of
                  None \<Rightarrow> Inl (KeyErrorLabel l) | Some r \<Rightarrow> Inr r))"
  by (simp add: best_def antibiotic_data_def mic_series_def loc_def columns_DataFrame [OF assms]
      rows_DataFrame row_columns_def cong: sum.case_cong)

lemma worst_eq:
  assumes "data \<noteq> []"
  shows "worst (DataFrame data) a =
    (case idxmin (map (\<lambda>(i, r). (i, - mic r))
            (filter (\<lambda>(i, r). antibiotic r = a) (enumerate 0 data))) of
       Inl e \<Rightarrow> Inl e
     | Inr l \<Rightarrow> (case map_of (filter (\<lambda>(i, r). antibiotic r = a) (enumerate 0 data)) l of
                  None \<Rightarrow> Inl (KeyErrorLabel l) | Some r \<Rightarrow> Inr r))"
proof -
  have "map (\<lambda>(j, w). (j, - w)) (map (\<lambda>(i, r). (i, mic r)) xs) =
        map (\<lambda>(i, r). (i, - mic r)) xs" for xs :: "(nat \<times> row) list"
    by (induction xs) auto
  then show ?thesis
    by (simp add: worst_def antibiotic_data_def mic_series_def loc_def
        columns_DataFrame [OF assms] rows_DataFrame row_columns_def idxmax_neg
        del: map_map cong: sum.case_cong)
qed

lemma best_first_least:
  assumes "\<exists>r \<in> set data. antibiotic r = a"
  shows "\<exists>pre b post. data = pre @ b # post \<and> antibiotic b = a \<and>
     best (DataFrame data) a = Inr b \<and>
     (\<forall>r \<in> set pre. antibiotic r = a \<longrightarrow> mic b < mic r) \<and>
     (\<forall>r \<in> set post. antibiotic r = a \<longrightarrow> mic b \<le> mic r)"
proof -
  from assms have ne: "data \<noteq> []" by auto
  from first_least_in_table [OF assms, of mic] obtain pre b post l where
    "data = pre @ b # post" "antibiotic b = a"
    "idxmin (map (\<lambda>(i, r). (i, mic r))
       (filter (\<lambda>(i, r). antibiotic r = a) (enumerate 0 data))) = Inr l"
    "map_of (filter (\<lambda>(i, r). antibiotic r = a) (enumerate 0 data)) l = Some b"
    "\<forall>r \<in> set pre. antibiotic r = a \<longrightarrow> mic b < mic r"
    "\<forall>r \<in> set post. antibiotic r = a \<longrightarrow> mic b \<le> mic r"
    by blast
  moreover from this(3,4) have "best (DataFrame data) a = Inr b"
    by (simp add: best_eq [OF ne])
  ultimately show ?thesis by blast
qed

lemma worst_first_greatest:
  assumes "\<exists>r \<in> set data. antibiotic r = a"
  shows "\<exists>pre w post. data = pre @ w # post \<and> antibiotic w = a \<and>
     worst (DataFrame data) a = Inr w \<and>
     (\<forall>r \<in> set pre. antibiotic r = a \<longrightarrow> mic r < mic w) \<and>
     (\<forall>r \<in> set post. antibiotic r = a \<longrightarrow> mic r \<le> mic w)"
proof -
  from assms have ne: "data \<noteq> []" by auto
  from first_least_in_table [OF assms, of "\<lambda>r. - mic r"] obtain pre b post l where
    "data = pre @ b # post" "antibiotic b = a"
    "idxmin (map (\<lambda>(i, r). (i, - mic r))
       (filter (\<lambda>(i, r). antibiotic r = a) (enumerate 0 data))) = Inr l"
    "map_of (filter (\<lambda>(i, r). antibiotic r = a) (enumerate 0 data)) l = Some b"
    "\<forall>r \<in> set pre. antibiotic r = a \<longrightarrow> - mic b < - mic r"
    "\<forall>r \<in> set post. antibiotic r = a \<longrightarrow> - mic b \<le> - mic r"
    by blast
  moreover from this(3,4) have "worst (DataFrame data) a = Inr b"
    by (simp add: worst_eq [OF ne])
  ultimately show ?thesis by fastforce
qed

lemma best_sample: "best (DataFrame sample_rows) ''Penicillin'' = Inr (pen_row ''A'' ''positive'' 1)"
  by (simp add: best_def antibiotic_data_def mic_series_def loc_def DataFrame_def
      row_columns_def sample_rows_def pen_row_def)

lemma worst_sample: "worst (DataFrame sample_rows) ''Penicillin'' = Inr (pen_row ''B'' ''negative'' 300)"
  by (simp add: worst_def antibiotic_data_def mic_series_def loc_def DataFrame_def
      row_columns_def sample_rows_def pen_row_def)

text \<open>
  Claim C5. For every list of rows and every antibiotic with at least one matching row,
  \<open>best\<close> and \<open>worst\<close> both return a row of the list for that antibiotic; the MIC of
  \<open>best\<close> is at most, and the MIC of \<open>worst\<close> at least, the MIC of every row of that
  antibiotic.
\<close>

theorem extremum_bounds:
  assumes "\<exists>r \<in> set data. antibiotic r = a"
  shows "\<exists>b w. best (DataFrame data) a = Inr b \<and> worst (DataFrame data) a = Inr w \<and>
     b \<in> set data \<and> w \<in> set data \<and> antibiotic b = a \<and> antibiotic w = a \<and>
     (\<forall>r \<in> set data. antibiotic r = a \<longrightarrow> mic b \<le> mic r \<and> mic r \<le> mic w)"
proof -
  from best_first_least [OF assms] obtain pre b post where
    b: "data = pre @ b # post" "antibiotic b = a" "best (DataFrame data) a = Inr b"
    "\<forall>r \<in> set pre. antibiotic r = a \<longrightarrow> mic b < mic r"
    "\<forall>r \<in> set post. antibiotic r = a \<longrightarrow> mic b \<le> mic r"
    by blast
  from worst_first_greatest [OF assms] obtain pre' w post' where
    w: "data = pre' @ w # post'" "antibiotic w = a" "worst (DataFrame data) a = Inr w"
    "\<forall>r \<in> set pre'. antibiotic r = a \<longrightarrow> mic r < mic w"
    "\<forall>r \<in> set post'. antibiotic r = a \<longrightarrow> mic r \<le> mic w"
    by blast
  have lo: "mic b \<le> mic r" if "r \<in> set data" "antibiotic r = a" for r
  proof -
    from that(1) b(1) have "r \<in> set pre \<or> r = b \<or> r \<in> set post" by auto
    with b(4,5) that(2) show ?thesis by fastforce
  qed
  have hi: "mic r \<le> mic w" if "r \<in> set data" "antibiotic r = a" for r
  proof -
    from that(1) w(1) have "r \<in> set pre' \<or> r = w \<or> r \<in> set post'" by auto
    with w(4,5) that(2) show ?thesis by fastforce
  qed
  from b(1) have "b \<in> set data" by simp
  moreover from w(1) have "w \<in> set data" by simp
  ultimately show ?thesis using b(2,3) w(2,3) lo hi by blast
qed

text \<open>
  Claim C6. Ties go to the first occurrence in the order of the table: the row that
  \<open>best\<close> returns stands at a position of the list before which every row of the
  antibiotic has a strictly greater MIC (and after which none has a smaller one), and the
  row that \<open>worst\<close> returns at a position before which every row of the antibiotic has
  a strictly smaller MIC.
\<close>

theorem extremum_first_occurrence:
  assumes "\<exists>r \<in> set data. antibiotic r = a"
  shows "(\<exists>pre b post. best (DataFrame data) a = Inr b \<and> data = pre @ b # post \<and>
            antibiotic b = a \<and>
            (\<forall>r \<in> set pre. antibiotic r = a \<longrightarrow> mic b < mic r) \<and>
            (\<forall>r \<in> set post. antibiotic r = a \<longrightarrow> mic b \<le> mic r)) \<and>
         (\<exists>pre w post. worst (DataFrame data) a = Inr w \<and> data = pre @ w # post \<and>
            antibiotic w = a \<and>
            (\<forall>r \<in> set pre. antibiotic r = a \<longrightarrow> mic r < mic w) \<and>
            (\<forall>r \<in> set post. antibiotic r = a \<longrightarrow> mic r \<le> mic w))"
  using best_first_least [OF assms] worst_first_greatest [OF assms] by blast

theorem extremum_bounds_witness:
  "(\<exists>r \<in> set sample_rows. antibiotic r = ''Penicillin'') \<and>
   (\<exists>b w. best (DataFrame sample_rows) ''Penicillin'' = Inr b \<and>
      worst (DataFrame sample_rows) ''Penicillin'' = Inr w \<and> mic b = 1 \<and> mic w = 300)"
proof -
  have h: "\<exists>r \<in> set sample_rows. antibiotic r = ''Penicillin''"
    by (simp add: sample_rows_def pen_row_def)
  from extremum_bounds [OF h] obtain b w where
    bw: "best (DataFrame sample_rows) ''Penicillin'' = Inr b"
      "worst (DataFrame sample_rows) ''Penicillin'' = Inr w"
    by auto
  with best_sample worst_sample have "mic b = 1" "mic w = 300"
    by (simp_all add: pen_row_def)
  with h bw show ?thesis by (intro conjI exI [of _ b] exI [of _ w]) simp_all
qed

theorem extremum_first_occurrence_witness:
  "(\<exists>r \<in> set sample_rows. antibiotic r = ''Penicillin'') \<and>
   best (DataFrame sample_rows) ''Penicillin'' = Inr (pen_row ''A'' ''positive'' 1) \<and>
   mic (pen_row ''D'' ''positive'' 1) = mic (pen_row ''A'' ''positive'' 1) \<and>
   worst (DataFrame sample_rows) ''Penicillin'' = Inr (pen_row ''B'' ''negative'' 300) \<and>
   mic (pen_row ''E'' ''negative'' 300) = mic (pen_row ''B'' ''negative'' 300)"
proof -
  have h: "\<exists>r \<in> set sample_rows. antibiotic r = ''Penicillin''"
    by (simp add: sample_rows_def pen_row_def)
  have m: "mic (pen_row ''D'' ''positive'' 1) = mic (pen_row ''A'' ''positive'' 1)"
    "mic (pen_row ''E'' ''negative'' 300) = mic (pen_row ''B'' ''negative'' 300)"
    by (simp_all add: pen_row_def)
  from extremum_first_occurrence [OF h] obtain b w where
    "best (DataFrame sample_rows) ''Penicillin'' = Inr b"
    "worst (DataFrame sample_rows) ''Penicillin'' = Inr w"
    by auto
  with h m best_sample worst_sample show ?thesis by simp
qed

end
